theory Spec2Isabelle
  imports Main "HOL-Library.AList"
begin

section \<open>Data model of \<open>stream.py\<close>\<close>

text \<open>
  Python \<open>bytes\<close> are lists of 8-bit characters. A Python \<open>str\<close> is represented by its
  UTF-8 encoding, so that \<open>encode\<close> is the identity, \<open>decode\<close> is a validity check, string
  literals of the source are literals here, and \<open>len\<close> counts the bytes that start a code
  point. A stream writer is an opaque handle.
\<close>

type_synonym bytes = string
type_synonym str = string
type_synonym writer = nat

text \<open>The status strings that the source stores under the key \<open>"status"\<close>.\<close>

datatype status = NEW | CONNECTED | ACTIVE | PAUSED | SUSPENDED | ERROR | CLOSING | CLOSED

text \<open>
  A value stored in a room dictionary. Sessions are the dictionaries
  \<open>{"writer": cw, "status": st}\<close>. The assignments \<open>self.client_list[x]["status"] = "..."\<close> of
  \<open>send_error_and_close\<close> and \<open>close_client\<close> index the registry by a single key, so they store
  a bare status string under the key \<open>"status"\<close> of the room named \<open>x\<close>.
\<close>

datatype entry = Session writer status | Bare status

type_synonym room = "(str \<times> entry) list"

text \<open>Exceptions of the Python runtime that the source raises or catches.\<close>

datatype exn =
    KeyError "str option"
  | TypeError
  | AttributeError
  | ConnectionResetError
  | BrokenPipeError
  | IncompleteReadError
  | LimitOverrunError
  | UnicodeDecodeError
  | RuntimeError str
  | OtherError

text \<open>
  The attributes of a \<open>ChatServer\<close> object. Dictionaries keep insertion order, which
  the broadcast iteration observes, so they are association lists.
\<close>

record server =
  use_ssl :: "bool option"
  cert_path :: "str option"
  client_list :: "(str \<times> room) list"
  client_id_counter :: nat
  host :: str
  port :: str
  client_count :: int
  max_clients :: int
  max_message_length :: int

text \<open>
  The connections: the frames delivered so far, the writers closed so far, and the
  exception (if any) that writing to or closing a given writer raises.
\<close>

record net =
  written :: "(writer \<times> str) list"
  closed :: "writer list"
  write_fault :: "(writer \<times> exn) list"
  close_fault :: "(writer \<times> exn) list"

section \<open>Construction\<close>

definition init :: "str \<Rightarrow> str \<Rightarrow> int \<Rightarrow> int \<Rightarrow> bool option \<Rightarrow> str option \<Rightarrow> exn + server" where
  "init h p mc mml ssl cert =
     (if ssl \<noteq> None \<and> cert = None
      then Inl (RuntimeError ''You cannot use SSL without providing a certfiicate by path.'')
      else Inr \<lparr> use_ssl = ssl, cert_path = cert, client_list = [], client_id_counter = 1,
                 host = h, port = p, client_count = 0, max_clients = mc,
                 max_message_length = mml \<rparr>)"

section \<open>Built-ins of the Python runtime\<close>

text \<open>
  The Unicode tables behind \<open>str.strip\<close>, \<open>str.upper\<close> and \<open>str.lower\<close>, and the text
  \<open>str(e)\<close> of a caught exception, belong to the interpreter and not to the repository.
  They are parameters of the model: every general theorem holds for all of them.
\<close>

record runtime =
  py_strip :: "str \<Rightarrow> str"
  py_upper :: "str \<Rightarrow> str"
  py_lower :: "str \<Rightarrow> str"
  exc_str :: "exn \<Rightarrow> str"

text \<open>\<open>str(n)\<close> for an integer: decimal digits, with a sign for negative numbers.\<close>

definition digit_char :: "nat \<Rightarrow> char" where
  "digit_char d = char_of (48 + d)"

fun str_nat :: "nat \<Rightarrow> str" where
  "str_nat n = (if n < 10 then [digit_char n] else str_nat (n div 10) @ [digit_char (n mod 10)])"

declare str_nat.simps [simp del]

definition str_int :: "int \<Rightarrow> str" where
  "str_int i = (if i < 0 then ''-'' @ str_nat (nat (- i)) else str_nat (nat i))"

text \<open>\<open>bytes.decode()\<close>: strict UTF-8, as in CPython (no overlong forms, no surrogates,
  nothing above U+10FFFF).\<close>

definition byte_in :: "nat \<Rightarrow> nat \<Rightarrow> char \<Rightarrow> bool" where
  "byte_in lo hi c = (lo \<le> (of_char c :: nat) \<and> (of_char c :: nat) \<le> hi)"

fun utf8_valid :: "bytes \<Rightarrow> bool" where
  "utf8_valid [] = True"
| "utf8_valid (c # cs) =
     (if byte_in 0x00 0x7F c then utf8_valid cs
      else if byte_in 0xC2 0xDF c then
        (case cs of c1 # r \<Rightarrow> byte_in 0x80 0xBF c1 \<and> utf8_valid r | _ \<Rightarrow> False)
      else if byte_in 0xE0 0xEF c then
        (case cs of c1 # c2 # r \<Rightarrow>
           (if byte_in 0xE0 0xE0 c then byte_in 0xA0 0xBF c1
            else if byte_in 0xED 0xED c then byte_in 0x80 0x9F c1
            else byte_in 0x80 0xBF c1)
           \<and> byte_in 0x80 0xBF c2 \<and> utf8_valid r
         | _ \<Rightarrow> False)
      else if byte_in 0xF0 0xF4 c then
        (case cs of c1 # c2 # c3 # r \<Rightarrow>
           (if byte_in 0xF0 0xF0 c then byte_in 0x90 0xBF c1
            else if byte_in 0xF4 0xF4 c then byte_in 0x80 0x8F c1
            else byte_in 0x80 0xBF c1)
           \<and> byte_in 0x80 0xBF c2 \<and> byte_in 0x80 0xBF c3 \<and> utf8_valid r
         | _ \<Rightarrow> False)
      else False)"

definition decode :: "bytes \<Rightarrow> exn + str" where
  "decode b = (if utf8_valid b then Inr b else Inl UnicodeDecodeError)"

text \<open>\<open>len\<close> of a \<open>str\<close>: its code points, that is the bytes that are not continuation bytes.\<close>

definition py_len :: "str \<Rightarrow> int" where
  "py_len t = int (length (filter (\<lambda>c. \<not> byte_in 0x80 0xBF c) t))"

text \<open>\<open>str(b)\<close> of a \<open>bytes\<close> object is its \<open>repr\<close>: \<open>b'...'\<close> with escapes.\<close>

definition hex_digit :: "nat \<Rightarrow> char" where
  "hex_digit d = (if d < 10 then char_of (48 + d) else char_of (87 + d))"

definition repr_byte :: "char \<Rightarrow> char \<Rightarrow> str" where
  "repr_byte quote c =
     (if c = quote \<or> c = CHR 0x5C then [CHR 0x5C, c]
      else if c = CHR 0x09 then [CHR 0x5C, CHR ''t'']
      else if c = CHR 0x0A then [CHR 0x5C, CHR ''n'']
      else if c = CHR 0x0D then [CHR 0x5C, CHR ''r'']
      else if (of_char c :: nat) < 0x20 \<or> 0x7F \<le> (of_char c :: nat)
        then [CHR 0x5C, CHR ''x'', hex_digit ((of_char c :: nat) div 16),
              hex_digit ((of_char c :: nat) mod 16)]
      else [c])"

definition repr_bytes :: "bytes \<Rightarrow> str" where
  "repr_bytes b =
     (let quote = (if CHR 0x27 \<in> set b \<and> CHR 0x22 \<notin> set b then CHR 0x22 else CHR 0x27)
      in [CHR ''b'', quote] @ concat (map (repr_byte quote) b) @ [quote])"

text \<open>\<open>s.split(sep=":")\<close> and \<open>", ".join(xs)\<close>.\<close>

fun split_colon :: "str \<Rightarrow> str list" where
  "split_colon [] = [[]]"
| "split_colon (c # cs) =
     (if c = CHR '':'' then [] # split_colon cs
      else (case split_colon cs of p # ps \<Rightarrow> (c # p) # ps | [] \<Rightarrow> [[c]]))"

fun join_comma :: "str list \<Rightarrow> str" where
  "join_comma [] = []"
| "join_comma [x] = x"
| "join_comma (x # y # ys) = x @ '', '' @ join_comma (y # ys)"

section \<open>Connections\<close>

text \<open>\<open>cw.write(data); await cw.drain()\<close>: the frame is delivered, or an exception is raised.\<close>

definition write_drain :: "writer \<Rightarrow> str \<Rightarrow> net \<Rightarrow> exn option \<times> net" where
  "write_drain cw data n =
     (case map_of (write_fault n) cw of
        Some e \<Rightarrow> (Some e, n)
      | None \<Rightarrow> (None, n\<lparr>written := written n @ [(cw, data)]\<rparr>))"

text \<open>\<open>cw.close(); await cw.wait_closed()\<close>.\<close>

definition close_wait :: "writer \<Rightarrow> net \<Rightarrow> exn option \<times> net" where
  "close_wait cw n = (map_of (close_fault n) cw, n\<lparr>closed := closed n @ [cw]\<rparr>)"

text \<open>
  The input side of a connection: the bytes the client sends, whether the stream ends
  with an end of file or with a connection reset, and the limit of the stream reader.
  \<open>readuntil\<close> raises LimitOverrunError when the separator is not within the limit:
  when it is found after more than \<open>limit\<close> bytes, and when it is missing from more than
  \<open>limit\<close> bytes. \<open>run_server\<close> passes no limit to \<open>start_server\<close>, so the limit of a
  served connection is the default of asyncio, 65536.
\<close>

record reader =
  pending :: bytes
  reset_at_end :: bool
  limit :: int

definition readuntil_space :: "reader \<Rightarrow> exn + (bytes \<times> reader)" where
  "readuntil_space rd =
     (case dropWhile (\<lambda>c. c \<noteq> CHR '' '') (pending rd) of
        [] \<Rightarrow>
          Inl (if limit rd < int (length (pending rd)) then LimitOverrunError
               else if reset_at_end rd then ConnectionResetError
               else IncompleteReadError)
      | sp # rest \<Rightarrow>
          (if limit rd < int (length (takeWhile (\<lambda>c. c \<noteq> CHR '' '') (pending rd)))
           then Inl LimitOverrunError
           else Inr (takeWhile (\<lambda>c. c \<noteq> CHR '' '') (pending rd) @ [sp],
                     rd\<lparr>pending := rest\<rparr>)))"

text \<open>The reader of a served connection on which the client sends the given bytes and
  then closes its side.\<close>

definition stream_of :: "bytes \<Rightarrow> reader" where
  "stream_of b = \<lparr> pending = b, reset_at_end = False, limit = 65536 \<rparr>"

definition read_all :: "reader \<Rightarrow> exn + bytes" where
  "read_all rd = (if reset_at_end rd then Inl ConnectionResetError else Inr (pending rd))"

section \<open>Sending\<close>

definition send_to_client :: "str \<Rightarrow> writer \<Rightarrow> net \<Rightarrow> net" where
  "send_to_client message_data client_writer n = snd (write_drain client_writer message_data n)"

definition send_error_to_writer :: "str \<Rightarrow> writer \<Rightarrow> net \<Rightarrow> net" where
  "send_error_to_writer message_data cw n = send_to_client (''ERROR '' @ message_data) cw n"

definition send_error_to_client :: "str \<Rightarrow> str \<Rightarrow> str \<Rightarrow> server \<Rightarrow> net \<Rightarrow> exn + net" where
  "send_error_to_client message_data chat_room client_id s n =
     (let full_message = ''ERROR '' @ chat_room @ '':'' @ client_id @ '' '' @ message_data
      in case map_of (client_list s) chat_room of
           None \<Rightarrow> Inl (KeyError (Some chat_room))
         | Some clients \<Rightarrow>
             (case map_of clients client_id of
                None \<Rightarrow> Inl (KeyError (Some client_id))
              | Some (Bare v) \<Rightarrow> Inl TypeError
              | Some (Session client_writer st) \<Rightarrow> Inr (send_to_client full_message client_writer n)))"

text \<open>\<open>key in self.client_list\<close>, and \<open>self.client_list[key]["status"] = v\<close>.\<close>

definition has_room :: "str \<Rightarrow> server \<Rightarrow> bool" where
  "has_room key s = (key \<in> set (map fst (client_list s)))"

definition put_status :: "str \<Rightarrow> status \<Rightarrow> server \<Rightarrow> server" where
  "put_status key v s =
     s\<lparr>client_list := AList.map_entry key (AList.update ''status'' (Bare v)) (client_list s)\<rparr>"

text \<open>\<open>self.client_list[chat_room][client_id] = e\<close> for a room that exists.\<close>

definition put_entry :: "str \<Rightarrow> str \<Rightarrow> entry \<Rightarrow> server \<Rightarrow> server" where
  "put_entry chat_room client_id e s =
     s\<lparr>client_list := AList.map_entry chat_room (AList.update client_id e) (client_list s)\<rparr>"

definition send_error_and_close :: "writer \<Rightarrow> str \<Rightarrow> str \<Rightarrow> server \<Rightarrow> net \<Rightarrow> server \<times> net" where
  "send_error_and_close cw error_message client_id s n =
     (let s1 = (if has_room client_id s then put_status client_id ERROR s else s)
      in case write_drain cw error_message n of
           (Some e, n1) \<Rightarrow> (s1\<lparr>client_count := client_count s1 - 1\<rparr>, n1)
         | (None, n1) \<Rightarrow>
             (case close_wait cw n1 of
                (Some e, n2) \<Rightarrow> (s1\<lparr>client_count := client_count s1 - 1\<rparr>, n2)
              | (None, n2) \<Rightarrow>
                  (let s2 = (if has_room client_id s1 then put_status client_id CLOSED s1 else s1)
                   in (s2\<lparr>client_count := client_count s2 - 1\<rparr>, n2))))"

text \<open>
  \<open>writer_iterator\<close> and the loop of \<open>send_to_all_clients\<close>. The generator reads
  \<open>client_data["writer"]\<close> before it looks at the status: on a bare string that raises
  TypeError, which leaves the loop and is caught by the outer handler of
  \<open>send_to_all_clients\<close>. A failed write is recorded and the loop goes on.
\<close>

fun broadcast :: "str \<Rightarrow> room \<Rightarrow> net \<Rightarrow> net" where
  "broadcast full_message [] n = n"
| "broadcast full_message ((k, Bare v) # clients) n = n"
| "broadcast full_message ((k, Session client_writer st) # clients) n =
     broadcast full_message clients
       (if st = CONNECTED \<or> st = ACTIVE then snd (write_drain client_writer full_message n) else n)"

definition send_to_all_clients :: "str \<Rightarrow> str \<Rightarrow> server \<Rightarrow> net \<Rightarrow> net" where
  "send_to_all_clients message_data chat_room s n =
     (case map_of (client_list s) chat_room of
        None \<Rightarrow> n
      | Some clients \<Rightarrow> broadcast (''MSG '' @ message_data) clients n)"

section \<open>Registry operations\<close>

text \<open>
  The loop of \<open>register_client\<close> that looks for an unused id: the counter is incremented
  while \<open>client_name + str(counter)\<close> is a key of the room. It ends because the room is
  finite and \<open>str\<close> is injective.
\<close>

definition val_str :: "str \<Rightarrow> nat" where
  "val_str t = foldl (\<lambda>a c. 10 * a + ((of_char c :: nat) - 48)) 0 t"

lemma val_digit: "d < 10 \<Longrightarrow> (of_char (digit_char d) :: nat) - 48 = d"
  by (simp add: digit_char_def)

lemma val_str_nat: "val_str (str_nat n) = n"
proof (induction n rule: str_nat.induct)
  case (1 n)
  show ?case
  proof (cases "n < 10")
    case True
    then show ?thesis by (simp add: str_nat.simps[of n] val_str_def val_digit)
  next
    case False
    then have "val_str (str_nat (n div 10)) = n div 10" using 1 by simp
    then show ?thesis using False
      by (simp add: str_nat.simps[of n] val_str_def val_digit)
  qed
qed

lemma str_nat_inj: "str_nat a = str_nat b \<Longrightarrow> a = b"
  by (metis val_str_nat)

function next_client_id :: "str \<Rightarrow> room \<Rightarrow> nat \<Rightarrow> nat" where
  "next_client_id client_name clients c =
     (if map_of clients (client_name @ str_nat c) \<noteq> None
      then next_client_id client_name clients (Suc c) else c)"
  by pat_completeness auto
termination
proof (relation "measure (\<lambda>(client_name, clients, c).
         card {k \<in> fst ` set clients. \<exists>m\<ge>c. k = client_name @ str_nat m})")
  show "wf (measure (\<lambda>(client_name, clients, c).
         card {k \<in> fst ` set clients. \<exists>m\<ge>c. k = client_name @ str_nat m}))" by simp
next
  fix client_name :: str and clients :: room and c :: nat
  assume a: "map_of clients (client_name @ str_nat c) \<noteq> None"
  let ?A = "\<lambda>c. {k \<in> fst ` set clients. \<exists>m\<ge>c. k = client_name @ str_nat m}"
  have fin: "finite (?A c)" by simp
  have mem: "client_name @ str_nat c \<in> ?A c"
    using a by (auto simp: map_of_eq_None_iff)
  have notin: "client_name @ str_nat c \<notin> ?A (Suc c)"
    by (auto dest: str_nat_inj)
  have sub: "?A (Suc c) \<subseteq> ?A c" using Suc_leD by blast
  have "?A (Suc c) \<subset> ?A c" using mem notin sub by blast
  then have "card (?A (Suc c)) < card (?A c)" using fin by (rule psubset_card_mono[rotated])
  then show "((client_name, clients, Suc c), (client_name, clients, c))
        \<in> measure (\<lambda>(client_name, clients, c).
         card {k \<in> fst ` set clients. \<exists>m\<ge>c. k = client_name @ str_nat m})" by simp
qed

declare next_client_id.simps [simp del]

text \<open>
  \<open>register_client\<close> returns the assigned id, or the string \<open>"ERROR"\<close>. Nothing in its
  \<open>try\<close> body raises (\<open>send_error_and_close\<close> catches every exception itself), so its
  \<open>except\<close> clause has no branch here.
\<close>

definition register_client :: "writer \<Rightarrow> str \<Rightarrow> str \<Rightarrow> server \<Rightarrow> net \<Rightarrow> str \<times> server \<times> net" where
  "register_client cw client_name chat_room s n =
     (case map_of (client_list s) chat_room of
        None \<Rightarrow>
          (''ERROR'',
           send_error_and_close cw
             (''Chat room '' @ chat_room @ '' does not exist. Please add it first.'')
             client_name s n)
      | Some clients \<Rightarrow>
          (if client_name = ''client''
           then (let c = next_client_id client_name clients (client_id_counter s + 1);
                     client_id = client_name @ str_nat c
                 in (client_id,
                     put_entry chat_room client_id (Session cw NEW) (s\<lparr>client_id_counter := c\<rparr>),
                     n))
           else (client_name, put_entry chat_room client_name (Session cw NEW) s, n)))"

text \<open>
  \<open>pause_client\<close>: the rooms are visited in order and updated in place, so the rooms
  visited before an exception stay paused. Assigning into a bare string raises TypeError.
\<close>

fun pause_rooms :: "str \<Rightarrow> (str \<times> room) list \<Rightarrow> exn option \<times> str list \<times> (str \<times> room) list" where
  "pause_rooms client_id [] = (None, [], [])"
| "pause_rooms client_id ((chat_room, clients) # rest) =
     (case map_of clients client_id of
        None \<Rightarrow>
          (case pause_rooms client_id rest of
             (e, paused, rest') \<Rightarrow> (e, paused, (chat_room, clients) # rest'))
      | Some (Bare v) \<Rightarrow> (Some TypeError, [], (chat_room, clients) # rest)
      | Some (Session w st) \<Rightarrow>
          (case pause_rooms client_id rest of
             (e, paused, rest') \<Rightarrow>
               (e, chat_room # paused,
                (chat_room, AList.update client_id (Session w PAUSED) clients) # rest')))"

definition pause_client :: "str \<Rightarrow> server \<Rightarrow> (exn + str) \<times> server" where
  "pause_client client_id s =
     (case pause_rooms client_id (client_list s) of
        (Some e, paused_rooms, cl) \<Rightarrow> (Inl e, s\<lparr>client_list := cl\<rparr>)
      | (None, paused_rooms, cl) \<Rightarrow>
          (Inr (if paused_rooms = []
                then ''Client '' @ client_id @ '' not found in any chat rooms''
                else ''Client '' @ client_id @ '' paused in rooms: '' @ join_comma paused_rooms),
           s\<lparr>client_list := cl\<rparr>))"

definition join_chatroom :: "str \<Rightarrow> str \<Rightarrow> writer \<Rightarrow> server \<Rightarrow> net \<Rightarrow> str \<times> server \<times> net" where
  "join_chatroom chat_room client_id client_writer s n =
     (if \<not> has_room chat_room s
      then (let error_message =
                  ''Chat room '' @ chat_room @ '' can not be joined because it does not exist.''
            in (error_message, s, send_error_to_writer error_message client_writer n))
      else (let s1 = put_entry chat_room client_id (Session client_writer NEW) s;
                announcement_msg = ''Client '' @ client_id @ '' has joined Chat room '' @ chat_room
            in (announcement_msg, s1, send_to_all_clients announcement_msg chat_room s1 n)))"

text \<open>\<open>add_chatroom\<close> does not catch what \<open>send_error_to_client\<close> raises.\<close>

definition add_chatroom :: "str \<Rightarrow> str \<Rightarrow> writer \<Rightarrow> server \<Rightarrow> net \<Rightarrow> (exn + str) \<times> server \<times> net" where
  "add_chatroom chat_room client_id client_writer s n =
     (if chat_room = ''main''
      then (let error_message = ''ERROR: You cannot create the main chat room''
            in case send_error_to_client error_message chat_room client_id s n of
                 Inl e \<Rightarrow> (Inl e, s, n)
               | Inr n1 \<Rightarrow> (Inr error_message, s, n1))
      else if has_room chat_room s
      then (let error_message = ''ERROR: Chat Room '' @ chat_room @ '' already exists.''
            in case send_error_to_client error_message chat_room client_id s n of
                 Inl e \<Rightarrow> (Inl e, s, n)
               | Inr n1 \<Rightarrow> (Inr error_message, s, n1))
      else (let message_data =
                  ''MSG Chatroom '' @ chat_room @ '' was successfully created by '' @ client_id @ ''.''
            in (Inr message_data,
                s\<lparr>client_list :=
                    AList.update chat_room [(client_id, Session client_writer NEW)] (client_list s)\<rparr>,
                send_to_client message_data client_writer n)))"

text \<open>
  \<open>close_client\<close> looks its argument up among the room names. What it then reads under
  the key \<open>"writer"\<close> of that room is a room entry (a dictionary or a string), never a
  stream writer: the farewell \<open>write\<close> raises AttributeError, which the inner handler
  logs. No frame is written and no connection is closed on any path.
\<close>

definition close_client :: "str \<Rightarrow> server \<Rightarrow> net \<Rightarrow> server \<times> net" where
  "close_client client_id s n =
     (if \<not> has_room client_id s then (s, n)
      else (let s1 = put_status client_id CLOSING s
            in case map_of (client_list s1) client_id of
                 None \<Rightarrow> (s1\<lparr>client_count := client_count s1 - 1\<rparr>, n)
               | Some clients \<Rightarrow>
                   (case map_of clients ''writer'' of
                      None \<Rightarrow> (s1\<lparr>client_count := client_count s1 - 1\<rparr>, n)
                    | Some client_writer \<Rightarrow>
                        (let s2 = put_status client_id CLOSED s1
                         in (s2\<lparr>client_count := client_count s2 - 1\<rparr>, n)))))"

section \<open>Listings\<close>

definition TAB :: str where "TAB = [CHR 0x09]"
definition NL :: str where "NL = [CHR 0x0A]"

fun status_str :: "status \<Rightarrow> str" where
  "status_str NEW = ''NEW''"
| "status_str CONNECTED = ''CONNECTED''"
| "status_str ACTIVE = ''ACTIVE''"
| "status_str PAUSED = ''PAUSED''"
| "status_str SUSPENDED = ''SUSPENDED''"
| "status_str ERROR = ''ERROR''"
| "status_str CLOSING = ''CLOSING''"
| "status_str CLOSED = ''CLOSED''"

text \<open>The inner and outer loops of the \<open>"ALL"\<close> case; \<open>client_data['status']\<close> on a bare
  string raises TypeError.\<close>

fun all_clients_text :: "room \<Rightarrow> exn + str" where
  "all_clients_text [] = Inr []"
| "all_clients_text ((client_id, Bare v) # clients) = Inl TypeError"
| "all_clients_text ((client_id, Session w st) # clients) =
     (case all_clients_text clients of
        Inl e \<Rightarrow> Inl e
      | Inr t \<Rightarrow>
          Inr (TAB @ TAB @ ''+Client:'' @ client_id @ TAB @ TAB @ TAB @ ''+Status:'' @ status_str st @ t))"

fun all_rooms_text :: "(str \<times> room) list \<Rightarrow> exn + str" where
  "all_rooms_text [] = Inr []"
| "all_rooms_text ((room_name, clients) # rooms) =
     (case all_clients_text clients of
        Inl e \<Rightarrow> Inl e
      | Inr t \<Rightarrow>
          (case all_rooms_text rooms of
             Inl e \<Rightarrow> Inl e
           | Inr u \<Rightarrow> Inr (TAB @ ''-'' @ room_name @ NL @ t @ u)))"

definition list_chatrooms :: "str \<Rightarrow> str option \<Rightarrow> str option \<Rightarrow> server \<Rightarrow> exn + str" where
  "list_chatrooms list_type client_id chat_room s =
     (let list_msg = ''Chat Room List'' in
      if list_type = ''ALL'' then
        (case all_rooms_text (client_list s) of
           Inl e \<Rightarrow> Inl e
         | Inr t \<Rightarrow> Inr (list_msg @ '' With Clients and Status:'' @ NL @ t))
      else if list_type = ''CHAT_ROOMS'' then
        Inr (list_msg @ '':'' @ NL
             @ concat (map (\<lambda>(room_name, clients). TAB @ ''-'' @ room_name @ NL) (client_list s)))
      else if list_type = ''CHAT_ROOM_AND_CLIENTS'' then
        Inr (list_msg @ '' With Clients:'' @ NL
             @ concat (map (\<lambda>(room_name, clients).
                   TAB @ ''-'' @ room_name @ NL
                   @ concat (map (\<lambda>(cid, e). TAB @ TAB @ ''+'' @ cid @ NL) clients))
                 (client_list s)))
      else if list_type = ''CLIENT_CHAT_ROOMS'' then
        (case client_id of
           None \<Rightarrow> Inr ''Client does not exist.''
         | Some cid \<Rightarrow>
             Inr (list_msg @ ''For Client '' @ cid @ '':'' @ NL
                  @ concat (map (\<lambda>(room_name, clients). TAB @ ''-'' @ room_name @ NL)
                      (filter (\<lambda>(room_name, clients). cid \<in> set (map fst clients)) (client_list s)))))
      else if list_type = ''CLIENTS_FOR_CHAT_ROOM'' then
        (case chat_room of
           None \<Rightarrow> Inl (KeyError None)
         | Some r \<Rightarrow>
             (case map_of (client_list s) r of
                None \<Rightarrow> Inl (KeyError (Some r))
              | Some clients \<Rightarrow>
                  Inr (list_msg @ '' of Clients belonging to '' @ r
                       @ concat (map (\<lambda>(client, e). TAB @ ''-'' @ client @ NL) clients))))
      else Inr list_msg)"

text \<open>The dictionaries that \<open>list_chatrooms_as_dict\<close> builds.\<close>

datatype pyval = PNone | PStr str | PList "pyval list" | PDict "(str \<times> pyval) list"

fun all_clients_dict :: "room \<Rightarrow> exn + (str \<times> pyval) list" where
  "all_clients_dict [] = Inr []"
| "all_clients_dict ((client_id, Bare v) # clients) = Inl TypeError"
| "all_clients_dict ((client_id, Session w st) # clients) =
     (case all_clients_dict clients of
        Inl e \<Rightarrow> Inl e
      | Inr d \<Rightarrow>
          Inr ((client_id,
                PDict [(''client_id'', PStr client_id), (''status'', PStr (status_str st))]) # d))"

fun all_rooms_dict :: "(str \<times> room) list \<Rightarrow> exn + (str \<times> pyval) list" where
  "all_rooms_dict [] = Inr []"
| "all_rooms_dict ((room_name, clients) # rooms) =
     (case all_clients_dict clients of
        Inl e \<Rightarrow> Inl e
      | Inr d \<Rightarrow>
          (case all_rooms_dict rooms of
             Inl e \<Rightarrow> Inl e
           | Inr ds \<Rightarrow> Inr ((room_name, PDict d) # ds)))"

definition type_field :: "runtime \<Rightarrow> str \<Rightarrow> pyval" where
  "type_field rt list_type =
     PStr (map (\<lambda>c. if c = CHR ''_'' then CHR '' '' else c) (py_lower rt list_type))"

definition list_chatrooms_as_dict ::
    "runtime \<Rightarrow> str \<Rightarrow> str option \<Rightarrow> str option \<Rightarrow> server \<Rightarrow> exn + pyval" where
  "list_chatrooms_as_dict rt list_type client_id chat_room s =
     (if list_type = ''ALL'' then
        (case all_rooms_dict (client_list s) of
           Inl e \<Rightarrow> Inl e
         | Inr ds \<Rightarrow> Inr (PDict [(''type'', type_field rt list_type), (''chatroom_list'', PDict ds)]))
      else if list_type = ''CHAT_ROOMS'' then
        Inr (PDict [(''type'', type_field rt list_type),
                    (''chatroom_list'',
                     PDict (map (\<lambda>(room_name, clients). (room_name, PDict [])) (client_list s)))])
      else if list_type = ''CHAT_ROOM_AND_CLIENTS'' then
        Inr (PDict [(''type'', type_field rt list_type),
                    (''chatroom_list'',
                     PDict (map (\<lambda>(room_name, clients).
                        (room_name, PDict [(''client_list'', PList (map (\<lambda>(cid, e). PStr cid) clients))]))
                      (client_list s)))])
      else if list_type = ''CLIENT_CHAT_ROOMS'' then
        (case client_id of
           None \<Rightarrow>
             Inr (PDict [(''error'', PStr ''Client ID required for CLIENT_CHAT_ROOMS listing''),
                         (''status'', PStr ''FAILED'')])
         | Some cid \<Rightarrow>
             Inr (PDict [(''type'', type_field rt list_type), (''client_id'', PStr cid),
                         (''chat_rooms'',
                          PList (map (\<lambda>(room_name, clients). PStr room_name)
                            (filter (\<lambda>(room_name, clients). cid \<in> set (map fst clients))
                               (client_list s))))]))
      else if list_type = ''CLIENTS_FOR_CHAT_ROOM'' then
        Inr (PDict [(''type'', type_field rt list_type), (''chatroom_list'', PDict []),
                    (''chat_room_name'', (case chat_room of None \<Rightarrow> PNone | Some r \<Rightarrow> PStr r)),
                    (''client_list'',
                     (case chat_room of
                        None \<Rightarrow> PList []
                      | Some r \<Rightarrow>
                          (case map_of (client_list s) r of
                             None \<Rightarrow> PList []
                           | Some clients \<Rightarrow> PList (map (\<lambda>(cid, e). PStr cid) clients))))])
      else Inr (PDict [(''error'', PStr ''Invalid list type''), (''type'', PStr list_type)]))"

section \<open>The connection handler\<close>

definition ALLOWED_SERVER_COMMANDS :: "str list" where
  "ALLOWED_SERVER_COMMANDS =
     [''NEW'', ''LIST'', ''JOIN'', ''HELLO'', ''SEND'', ''PAUSE'', ''QUIT'', ''ERROR'', ''FROM'', ''MSG'']"

text \<open>
  The body of the block that parses the room and client id, after the header field has been
  read: the field is decoded (and the result only measured), then \<open>str()\<close> of the
  \<open>bytes\<close> object is stripped and split. The defaults are \<open>"main"\<close> and \<open>"client"\<close>.
\<close>

definition parse_room_client :: "runtime \<Rightarrow> bytes \<Rightarrow> exn + (str \<times> str)" where
  "parse_room_client rt client_chatroom_data =
     (case decode client_chatroom_data of
        Inl e \<Rightarrow> Inl e
      | Inr client_chatroom \<Rightarrow>
          (if py_len client_chatroom \<noteq> 0
           then (case split_colon (py_strip rt (repr_bytes client_chatroom_data)) of
                   [chat_room, client_id] \<Rightarrow> Inr (chat_room, client_id)
                 | _ \<Rightarrow> Inr (''main'', ''client''))
           else Inr (''main'', ''client'')))"

text \<open>The \<open>match\<close> on the status in the \<open>SEND\<close> case.\<close>

definition advance_status :: "str \<Rightarrow> str \<Rightarrow> writer \<Rightarrow> status \<Rightarrow> server \<Rightarrow> server" where
  "advance_status chat_room client_id w st s =
     (case st of
        NEW \<Rightarrow> put_entry chat_room client_id (Session w CONNECTED) s
      | CONNECTED \<Rightarrow> put_entry chat_room client_id (Session w ACTIVE) s
      | PAUSED \<Rightarrow> put_entry chat_room client_id (Session w ACTIVE) s
      | _ \<Rightarrow> s)"

text \<open>
  The second half of \<open>client_callback\<close>: the \<open>match\<close> on the command name. In the
  \<open>SEND\<close> case the source calls \<open>send_to_all_clients(chat_room, message_data)\<close> by position,
  while the parameters are \<open>(message_data, chat_room)\<close>. The result of \<open>list_chatrooms\<close> is
  assigned and never sent.
\<close>

definition process_command ::
    "runtime \<Rightarrow> str \<Rightarrow> str \<Rightarrow> str \<Rightarrow> str \<Rightarrow> writer \<Rightarrow> server \<Rightarrow> net \<Rightarrow> server \<times> net" where
  "process_command rt message_name chat_room client_id message_data client_writer s n =
     (if message_name = ''HELLO'' then
        snd (register_client client_writer client_id chat_room s n)
      else if message_name = ''SEND'' then
        (case map_of (client_list s) chat_room of
           None \<Rightarrow>
             send_error_and_close client_writer
               ''ERROR: You have not registered or joined this chat room yet, please say HELLO or JOIN first.''
               client_id s n
         | Some clients \<Rightarrow>
             (case map_of clients client_id of
                None \<Rightarrow>
                  send_error_and_close client_writer
                    ''ERROR: You have not registered or joined this chat room yet, please say HELLO or JOIN first.''
                    client_id s n
              | Some (Bare v) \<Rightarrow>
                  send_error_and_close client_writer
                    (''Command processing failed: '' @ exc_str rt TypeError) client_id s n
              | Some (Session w st) \<Rightarrow>
                  (let s1 = advance_status chat_room client_id w st s
                   in (s1, send_to_all_clients chat_room message_data s1 n))))
      else if message_name = ''PAUSE'' then
        (case pause_client client_id s of
           (Inl e, s1) \<Rightarrow>
             send_error_and_close client_writer (''Pause failed: '' @ exc_str rt e) client_id s1 n
         | (Inr msg, s1) \<Rightarrow> (s1, n))
      else if message_name = ''ERROR'' then
        send_error_and_close client_writer message_data client_id s n
      else if message_name = ''NEW'' then
        (case add_chatroom chat_room client_id client_writer s n of
           (Inl e, s1, n1) \<Rightarrow>
             send_error_and_close client_writer (''Room creation failed: '' @ exc_str rt e)
               client_id s1 n1
         | (Inr status, s1, n1) \<Rightarrow> (s1, n1))
      else if message_name = ''JOIN'' then
        snd (join_chatroom chat_room client_id client_writer s n)
      else if message_name = ''LIST'' then
        (case list_chatrooms message_data (Some client_id) None s of
           Inl e \<Rightarrow> (s, send_error_to_writer (''List failed: '' @ exc_str rt e) client_writer n)
         | Inr status \<Rightarrow> (s, n))
      else if message_name = ''QUIT'' then
        close_client client_id s n
      else (s, n))"

text \<open>The three \<open>except\<close> clauses of the first \<open>try\<close> of \<open>client_callback\<close>.\<close>

definition read_failed :: "runtime \<Rightarrow> exn \<Rightarrow> writer \<Rightarrow> server \<Rightarrow> net \<Rightarrow> server \<times> net" where
  "read_failed rt e client_writer s n =
     (case e of
        IncompleteReadError \<Rightarrow> (s\<lparr>client_count := client_count s - 1\<rparr>, n)
      | ConnectionResetError \<Rightarrow> (s\<lparr>client_count := client_count s - 1\<rparr>, n)
      | _ \<Rightarrow>
          (case send_error_and_close client_writer (''Server error: '' @ exc_str rt e) ''Unknown'' s n of
             (s1, n1) \<Rightarrow> (s1\<lparr>client_count := client_count s1 - 1\<rparr>, n1)))"

text \<open>A rejection inside the first \<open>try\<close>: \<open>send_error_and_close\<close>, then
  \<open>self.client_count -= 1\<close> once more, then \<open>return\<close>.\<close>

definition reject :: "writer \<Rightarrow> str \<Rightarrow> str \<Rightarrow> server \<Rightarrow> net \<Rightarrow> server \<times> net" where
  "reject client_writer error_message client_id s n =
     (case send_error_and_close client_writer error_message client_id s n of
        (s1, n1) \<Rightarrow> (s1\<lparr>client_count := client_count s1 - 1\<rparr>, n1))"

definition client_callback :: "runtime \<Rightarrow> reader \<Rightarrow> writer \<Rightarrow> server \<Rightarrow> net \<Rightarrow> server \<times> net" where
  "client_callback rt client_reader client_writer s n =
     (let s0 = s\<lparr>client_count := client_count s + 1\<rparr> in
      case readuntil_space client_reader of
        Inl e \<Rightarrow> read_failed rt e client_writer s0 n
      | Inr (message_identifier, rd1) \<Rightarrow>
      (case decode message_identifier of
        Inl e \<Rightarrow> read_failed rt e client_writer s0 n
      | Inr t \<Rightarrow>
      (let message_name = py_upper rt (py_strip rt t) in
       if message_name \<notin> set ALLOWED_SERVER_COMMANDS then
         reject client_writer
           (''ERROR: The '' @ message_name
              @ '' command is not a valid command, the client connection will be closed'')
           ''Unknown'' s0 n
       else if client_count s0 > max_clients s0 then
         reject client_writer
           ''ERROR: The maximum number of clients has been reached. No more clients are allowed, the client connection will be closed''
           ''Unknown'' s0 n
       else
      (case (case readuntil_space rd1 of
               Inl e \<Rightarrow> Inl e
             | Inr (client_chatroom_data, rd2) \<Rightarrow>
                 (case parse_room_client rt client_chatroom_data of
                    Inl e \<Rightarrow> Inl e
                  | Inr rc \<Rightarrow> Inr (rc, rd2))) of
        Inl e \<Rightarrow> reject client_writer (''Invalid format: '' @ exc_str rt e) ''Unknown'' s0 n
      | Inr ((chat_room, client_id), rd2) \<Rightarrow>
      (case read_all rd2 of
        Inl e \<Rightarrow> read_failed rt e client_writer s0 n
      | Inr message_data_buffer \<Rightarrow>
      (case decode message_data_buffer of
        Inl e \<Rightarrow> reject client_writer ''Invalid message encoding'' client_id s0 n
      | Inr message_data \<Rightarrow>
       if py_len message_data > max_message_length s0 then
         reject client_writer
           (''Message exceeds maximum length of '' @ str_int (max_message_length s0) @ '' characters'')
           client_id s0 n
       else process_command rt message_name chat_room client_id message_data client_writer s0 n))))))"

text \<open>
  The built-ins restricted to ASCII text, for running the handler on ASCII input: there
  \<open>strip\<close> removes ASCII white space and \<open>upper\<close>, \<open>lower\<close> change the letters a to z.
  The text of a KeyError is the \<open>repr\<close> of its key: quoted, with the quote chosen as for
  \<open>bytes\<close>, and with escapes for the quote, the backslash and the ASCII control characters
  (the bytes of a code point beyond ASCII are copied). The text of the other exceptions
  varies with the interpreter version and is left empty.
\<close>

definition ascii_space :: "char \<Rightarrow> bool" where
  "ascii_space c = (byte_in 0x09 0x0D c \<or> byte_in 0x1C 0x20 c)"

definition ascii_strip :: "str \<Rightarrow> str" where
  "ascii_strip t = rev (dropWhile ascii_space (rev (dropWhile ascii_space t)))"

definition ascii_upper :: "str \<Rightarrow> str" where
  "ascii_upper t = map (\<lambda>c. if byte_in 0x61 0x7A c then char_of ((of_char c :: nat) - 32) else c) t"

definition ascii_lower :: "str \<Rightarrow> str" where
  "ascii_lower t = map (\<lambda>c. if byte_in 0x41 0x5A c then char_of ((of_char c :: nat) + 32) else c) t"

definition repr_char :: "char \<Rightarrow> char \<Rightarrow> str" where
  "repr_char quote c =
     (if c = quote \<or> c = CHR 0x5C then [CHR 0x5C, c]
      else if c = CHR 0x09 then [CHR 0x5C, CHR ''t'']
      else if c = CHR 0x0A then [CHR 0x5C, CHR ''n'']
      else if c = CHR 0x0D then [CHR 0x5C, CHR ''r'']
      else if (of_char c :: nat) < 0x20 \<or> (of_char c :: nat) = 0x7F
        then [CHR 0x5C, CHR ''x'', hex_digit ((of_char c :: nat) div 16),
              hex_digit ((of_char c :: nat) mod 16)]
      else [c])"

definition repr_str :: "str \<Rightarrow> str" where
  "repr_str k =
     (let quote = (if CHR 0x27 \<in> set k \<and> CHR 0x22 \<notin> set k then CHR 0x22 else CHR 0x27)
      in [quote] @ concat (map (repr_char quote) k) @ [quote])"

fun exc_text :: "exn \<Rightarrow> str" where
  "exc_text (KeyError None) = ''None''"
| "exc_text (KeyError (Some k)) = repr_str k"
| "exc_text (RuntimeError m) = m"
| "exc_text e = []"

definition ascii_runtime :: runtime where
  "ascii_runtime =
     \<lparr> py_strip = ascii_strip, py_upper = ascii_upper, py_lower = ascii_lower, exc_str = exc_text \<rparr>"

section \<open>Queries and sample states\<close>

text \<open>\<open>self.client_list[chat_room][client_id]\<close>, when both keys are present.\<close>

definition session_of :: "str \<Rightarrow> str \<Rightarrow> server \<Rightarrow> entry option" where
  "session_of chat_room client_id s =
     (case map_of (client_list s) chat_room of
        None \<Rightarrow> None
      | Some clients \<Rightarrow> map_of clients client_id)"

text \<open>A server with two rooms, and connections on which every write succeeds.\<close>

definition lobby_server :: server where
  "lobby_server =
     \<lparr> use_ssl = None, cert_path = None,
       client_list = [(''lobby'', [(''alice'', Session 1 PAUSED), (''bob'', Session 2 ACTIVE)]),
                      (''hi'', [(''carol'', Session 3 ACTIVE)])],
       client_id_counter = 1, host = ''127.0.0.1'', port = ''10010'', client_count = 0,
       max_clients = 100, max_message_length = 255 \<rparr>"

definition quiet_net :: net where
  "quiet_net = \<lparr> written = [], closed = [], write_fault = [], close_fault = [] \<rparr>"

text \<open>
  What can happen to a running server: a connection is handled by \<open>client_callback\<close>; the
  REST and WebSocket layers call \<open>send_to_all_clients\<close>, \<open>pause_client\<close> and \<open>close_client\<close>;
  and the connections start or stop failing.
\<close>

datatype event =
    Connect reader writer
  | SendToRoom str str
  | PauseClient str
  | CloseClient str
  | Fault "(writer \<times> exn) list" "(writer \<times> exn) list"

fun step :: "runtime \<Rightarrow> event \<Rightarrow> server \<times> net \<Rightarrow> server \<times> net" where
  "step rt (Connect client_reader client_writer) (s, n) = client_callback rt client_reader client_writer s n"
| "step rt (SendToRoom chat_room message_data) (s, n) = (s, send_to_all_clients message_data chat_room s n)"
| "step rt (PauseClient client_id) (s, n) = (snd (pause_client client_id s), n)"
| "step rt (CloseClient client_id) (s, n) = close_client client_id s n"
| "step rt (Fault wfault cfault) (s, n) = (s, n\<lparr>write_fault := wfault, close_fault := cfault\<rparr>)"

fun run :: "runtime \<Rightarrow> event list \<Rightarrow> server \<times> net \<Rightarrow> server \<times> net" where
  "run rt [] sn = sn"
| "run rt (e # es) sn = run rt es (step rt e sn)"

text \<open>The server that the constructor builds from its default arguments.\<close>

definition fresh_server :: server where
  "fresh_server =
     \<lparr> use_ssl = None, cert_path = None, client_list = [], client_id_counter = 1,
       host = ''127.0.0.1'', port = ''10010'', client_count = 0, max_clients = 100,
       max_message_length = 255 \<rparr>"

section \<open>Lookup lemmas\<close>

lemma session_of_put_entry:
  "session_of r' c' (put_entry r c e s) =
     (if r' = r \<and> c' = c \<and> map_of (client_list s) r \<noteq> None then Some e else session_of r' c' s)"
  by (auto simp: session_of_def put_entry_def map_of_map_entry update_conv' split: option.splits)

lemma process_send:
  assumes "session_of r c s = Some (Session w st)"
  shows "process_command rt ''SEND'' r c body cw s n =
           (advance_status r c w st s, send_to_all_clients r body (advance_status r c w st s) n)"
  using assms by (auto simp: process_command_def session_of_def Let_def split: option.splits)

lemma session_of_advance_status:
  assumes "session_of r c s = Some (Session w st)"
  shows "session_of r c (advance_status r c w st s) =
           Some (Session w (case st of NEW \<Rightarrow> CONNECTED | CONNECTED \<Rightarrow> ACTIVE
                            | PAUSED \<Rightarrow> ACTIVE | ACTIVE \<Rightarrow> ACTIVE | other \<Rightarrow> other))"
proof -
  have ex: "map_of (client_list s) r \<noteq> None"
    using assms by (auto simp: session_of_def split: option.splits)
  show ?thesis
    using assms ex by (cases st) (simp_all add: advance_status_def session_of_put_entry)
qed

section \<open>Construction without a certificate\<close>

text \<open>
  C10. Constructing a server with no certificate path raises RuntimeError for every
  non-None value of \<open>use_ssl\<close>, the value False included; with \<open>use_ssl\<close> None the
  same construction succeeds.
\<close>

theorem init_no_cert_rejected:
  "init h p mc mml (Some b) None =
     Inl (RuntimeError ''You cannot use SSL without providing a certfiicate by path.'')
   \<and> init h p mc mml (Some False) None =
     Inl (RuntimeError ''You cannot use SSL without providing a certfiicate by path.'')
   \<and> (\<exists>s. init h p mc mml None None = Inr s)"
  by (simp add: init_def)

section \<open>The status transition of SEND\<close>

text \<open>
  C8. When a registered session sends, its status goes from NEW to CONNECTED, from
  CONNECTED to ACTIVE and from PAUSED to ACTIVE, and ACTIVE stays ACTIVE (every other
  status is left as it is); the writer of the session is kept.
\<close>

theorem send_advances_status:
  assumes "session_of r c s = Some (Session w st)"
  shows "session_of r c (fst (process_command rt ''SEND'' r c body cw s n)) =
           Some (Session w (case st of NEW \<Rightarrow> CONNECTED | CONNECTED \<Rightarrow> ACTIVE
                            | PAUSED \<Rightarrow> ACTIVE | ACTIVE \<Rightarrow> ACTIVE | other \<Rightarrow> other))"
  using assms by (simp add: process_send session_of_advance_status)

theorem send_advances_status_witness:
  "session_of ''lobby'' ''alice'' lobby_server = Some (Session 1 PAUSED)
   \<and> session_of ''lobby'' ''alice''
        (fst (process_command ascii_runtime ''SEND'' ''lobby'' ''alice'' ''hi'' 1 lobby_server quiet_net))
      = Some (Session 1 ACTIVE)"
proof -
  have h: "session_of ''lobby'' ''alice'' lobby_server = Some (Session 1 PAUSED)"
    by (simp add: session_of_def lobby_server_def)
  show ?thesis
    using h send_advances_status [OF h, of ascii_runtime "''hi''" 1 quiet_net] by simp
qed

section \<open>Where a SEND is delivered\<close>

text \<open>
  C1 on the code. Alice is PAUSED in the room lobby, where Bob is ACTIVE, and sends the body
  hi. Alice becomes ACTIVE, Bob receives nothing, and Carol, an ACTIVE session of another
  room that happens to be named hi, receives the frame \<open>MSG lobby\<close>: the call passes the room
  where the text is expected and the text where the room is expected.
\<close>

theorem send_broadcast_misrouted:
  "process_command rt ''SEND'' ''lobby'' ''alice'' ''hi'' 1 lobby_server quiet_net =
     (lobby_server\<lparr>client_list :=
         [(''lobby'', [(''alice'', Session 1 ACTIVE), (''bob'', Session 2 ACTIVE)]),
          (''hi'', [(''carol'', Session 3 ACTIVE)])]\<rparr>,
      quiet_net\<lparr>written := [(3, ''MSG lobby'')]\<rparr>)"
  by (simp add: process_command_def lobby_server_def quiet_net_def advance_status_def put_entry_def
      send_to_all_clients_def write_drain_def)

section \<open>The room and client id of a frame\<close>

text \<open>
  C3 on the code. The header field \<open>main:alice\<close> followed by a space is split after
  \<open>str()\<close> of the bytes object, so the room is \<open>b'main\<close> and the client id is \<open>alice\<close>
  followed by a space and a quote.
\<close>

theorem header_parsed_from_repr:
  "parse_room_client ascii_runtime ''main:alice '' =
     Inr (''b'' @ [CHR 0x27] @ ''main'', ''alice '' @ [CHR 0x27])"
  by code_simp

section \<open>Listings of an unsupported kind\<close>

text \<open>
  C7 on the code. For the kind FOO, \<open>list_chatrooms\<close> returns the bare header, where
  \<open>list_chatrooms_as_dict\<close> returns an error dictionary; and for the members of a room
  with no room given, \<open>list_chatrooms_as_dict\<close> returns an empty listing.
\<close>

theorem list_unknown_kind_not_an_error:
  "list_chatrooms ''FOO'' client_id chat_room s = Inr ''Chat Room List''
   \<and> list_chatrooms_as_dict rt ''FOO'' client_id chat_room s =
       Inr (PDict [(''error'', PStr ''Invalid list type''), (''type'', PStr ''FOO'')])
   \<and> list_chatrooms_as_dict rt ''CLIENTS_FOR_CHAT_ROOM'' client_id None s =
       Inr (PDict [(''type'', type_field rt ''CLIENTS_FOR_CHAT_ROOM''), (''chatroom_list'', PDict []),
                   (''chat_room_name'', PNone), (''client_list'', PList [])])"
  by (simp add: list_chatrooms_def list_chatrooms_as_dict_def)

section \<open>Verbs without a dispatch case\<close>

text \<open>
  C9 as the code has it. The verbs FROM and MSG are in the list of allowed commands, and
  the \<open>match\<close> of \<open>client_callback\<close> has no case for them: it returns the registry and the
  connections as they are, with nothing written. For a connection that passes the checks
  before the dispatch (the count is within the maximum, the header field is read and parsed,
  the body is read, decoded and within the maximum length), the whole handler only counts
  the connection.
\<close>

theorem from_msg_not_dispatched:
  assumes verb: "message_name = ''FROM'' \<or> message_name = ''MSG''"
  shows "message_name \<in> set ALLOWED_SERVER_COMMANDS
         \<and> process_command rt message_name chat_room client_id message_data client_writer s n = (s, n)
         \<and> (readuntil_space client_reader = Inr (message_identifier, rd1) \<longrightarrow>
            decode message_identifier = Inr t \<longrightarrow>
            py_upper rt (py_strip rt t) = message_name \<longrightarrow>
            client_count s + 1 \<le> max_clients s \<longrightarrow>
            readuntil_space rd1 = Inr (client_chatroom_data, rd2) \<longrightarrow>
            parse_room_client rt client_chatroom_data = Inr (chat_room, client_id) \<longrightarrow>
            read_all rd2 = Inr message_data_buffer \<longrightarrow>
            decode message_data_buffer = Inr message_data \<longrightarrow>
            py_len message_data \<le> max_message_length s \<longrightarrow>
            client_callback rt client_reader client_writer s n
              = (s\<lparr>client_count := client_count s + 1\<rparr>, n))"
proof -
  have allowed: "message_name \<in> set ALLOWED_SERVER_COMMANDS"
    using verb by (auto simp: ALLOWED_SERVER_COMMANDS_def)
  have disp: "\<And>s n. process_command rt message_name chat_room client_id message_data client_writer s n = (s, n)"
    using verb by (auto simp: process_command_def)
  show ?thesis
    using allowed disp by (simp add: client_callback_def Let_def)
qed

theorem from_msg_not_dispatched_witness:
  "client_callback ascii_runtime (stream_of ''msg a:b x'') 7 fresh_server quiet_net
     = (fresh_server\<lparr>client_count := 1\<rparr>, quiet_net)"
proof -
  let ?rd = "(stream_of ''msg a:b x'')"
  let ?rd1 = "(stream_of ''a:b x'')"
  let ?rd2 = "(stream_of ''x'')"
  have v: "''MSG'' = ''FROM'' \<or> ''MSG'' = ''MSG''" by simp
  have h1: "readuntil_space ?rd = Inr (''msg '', ?rd1)" by (simp add: readuntil_space_def stream_of_def)
  have h2: "decode ''msg '' = Inr ''msg ''" by code_simp
  have h3: "py_upper ascii_runtime (py_strip ascii_runtime ''msg '') = ''MSG''" by code_simp
  have h4: "client_count fresh_server + 1 \<le> max_clients fresh_server" by (simp add: fresh_server_def)
  have h5: "readuntil_space ?rd1 = Inr (''a:b '', ?rd2)" by (simp add: readuntil_space_def stream_of_def)
  have h6: "parse_room_client ascii_runtime ''a:b '' = Inr (''b'' @ [CHR 0x27] @ ''a'', ''b '' @ [CHR 0x27])"
    by code_simp
  have h7: "read_all ?rd2 = Inr ''x''" by (simp add: read_all_def stream_of_def)
  have h8: "decode ''x'' = Inr ''x''" by code_simp
  have h9: "py_len ''x'' \<le> max_message_length fresh_server" by (simp add: fresh_server_def py_len_def byte_in_def)
  have c: "client_count fresh_server + 1 = 1" by (simp add: fresh_server_def)
  show ?thesis
    using from_msg_not_dispatched [OF v, where client_reader = ?rd and message_identifier = "''msg ''"
        and ?rd1.0 = ?rd1 and t = "''msg ''" and rt = ascii_runtime and s = fresh_server
        and client_chatroom_data = "''a:b ''" and ?rd2.0 = ?rd2
        and chat_room = "''b'' @ [CHR 0x27] @ ''a''" and client_id = "''b '' @ [CHR 0x27]"
        and message_data_buffer = "''x''" and message_data = "''x''" and client_writer = 7
        and n = quiet_net]
      h1 h2 h3 h4 h5 h6 h7 h8 h9 c
    by simp
qed

text \<open>
  C9 as stated fails: a FROM frame whose body is longer than the maximum is answered with
  the error frame for a long message, and its connection is closed.
\<close>

theorem from_msg_rejected_counterexample:
  "py_upper ascii_runtime (py_strip ascii_runtime ''FROM '') = ''FROM''
   \<and> client_callback ascii_runtime (stream_of ''FROM a:b xyz'') 7
         (fresh_server\<lparr>max_message_length := 2\<rparr>) quiet_net
       = (fresh_server\<lparr>max_message_length := 2, client_count := - 1\<rparr>,
          quiet_net\<lparr>written := [(7, ''Message exceeds maximum length of 2 characters'')],
                    closed := [7]\<rparr>)"
  by code_simp

section \<open>The capacity check\<close>

lemma client_list_put_status_keys:
  "map fst (client_list (put_status k v s)) = map fst (client_list s)"
proof -
  have "\<And>f xs. map fst (AList.map_entry k f xs) = map fst (xs :: (str \<times> room) list)"
  proof -
    fix f and xs :: "(str \<times> room) list"
    show "map fst (AList.map_entry k f xs) = map fst xs"
      by (induction xs) auto
  qed
  then show ?thesis by (simp add: put_status_def)
qed

lemma reject_written:
  assumes "map_of (write_fault n) cw = None"
  shows "written (snd (reject cw m cid s n)) = written n @ [(cw, m)]"
  using assms
  by (simp add: reject_def send_error_and_close_def write_drain_def close_wait_def Let_def
      split: option.splits prod.splits)

lemma reject_registry:
  assumes "\<not> has_room cid s"
  shows "client_list (fst (reject cw m cid s n)) = client_list s"
  using assms
  by (simp add: reject_def send_error_and_close_def write_drain_def close_wait_def Let_def
      split: option.splits prod.splits)

text \<open>
  C6 as the code has it. The verb is read, decoded and validated first. For a connection
  that brings the count above \<open>max_clients\<close>, a verb outside the vocabulary is rejected as an
  unknown command, and a verb of the vocabulary is rejected with the capacity error; in both
  cases nothing more is read from the connection, the frame goes to the client when its
  writer works, and the registry is unchanged when no room is named Unknown.
\<close>

theorem capacity_checked_after_verb:
  assumes "readuntil_space client_reader = Inr (message_identifier, rd1)"
    and "decode message_identifier = Inr t"
    and "message_name = py_upper rt (py_strip rt t)"
    and "client_count s + 1 > max_clients s"
    and "frame = (if message_name \<in> set ALLOWED_SERVER_COMMANDS
                  then ''ERROR: The maximum number of clients has been reached. No more clients are allowed, the client connection will be closed''
                  else ''ERROR: The '' @ message_name
                         @ '' command is not a valid command, the client connection will be closed'')"
  shows "client_callback rt client_reader client_writer s n =
           reject client_writer frame ''Unknown'' (s\<lparr>client_count := client_count s + 1\<rparr>) n
         \<and> (map_of (write_fault n) client_writer = None \<longrightarrow>
              written (snd (client_callback rt client_reader client_writer s n))
                = written n @ [(client_writer, frame)])
         \<and> (\<not> has_room ''Unknown'' s \<longrightarrow>
              client_list (fst (client_callback rt client_reader client_writer s n)) = client_list s)"
proof -
  have eq: "client_callback rt client_reader client_writer s n =
           reject client_writer frame ''Unknown'' (s\<lparr>client_count := client_count s + 1\<rparr>) n"
    using assms by (simp add: client_callback_def Let_def)
  have nr: "\<not> has_room ''Unknown'' s \<Longrightarrow> \<not> has_room ''Unknown'' (s\<lparr>client_count := client_count s + 1\<rparr>)"
    by (simp add: has_room_def)
  show ?thesis
    unfolding eq using nr by (simp add: reject_written reject_registry)
qed

theorem capacity_checked_after_verb_witness:
  "client_callback ascii_runtime (stream_of ''MSG a:b x'') 7
       (lobby_server\<lparr>client_count := 100\<rparr>) quiet_net
     = reject 7
         ''ERROR: The maximum number of clients has been reached. No more clients are allowed, the client connection will be closed''
         ''Unknown'' (lobby_server\<lparr>client_count := 101\<rparr>) quiet_net"
proof -
  let ?rd = "(stream_of ''MSG a:b x'')"
  let ?rd1 = "(stream_of ''a:b x'')"
  have h1: "readuntil_space ?rd = Inr (''MSG '', ?rd1)" by (simp add: readuntil_space_def stream_of_def)
  have h2: "decode ''MSG '' = Inr ''MSG ''" by code_simp
  have h3: "''MSG'' = py_upper ascii_runtime (py_strip ascii_runtime ''MSG '')" by code_simp
  have h4: "client_count (lobby_server\<lparr>client_count := 100\<rparr>) + 1
              > max_clients (lobby_server\<lparr>client_count := 100\<rparr>)"
    by (simp add: lobby_server_def)
  have h5: "''ERROR: The maximum number of clients has been reached. No more clients are allowed, the client connection will be closed''
     = (if ''MSG'' \<in> set ALLOWED_SERVER_COMMANDS
        then ''ERROR: The maximum number of clients has been reached. No more clients are allowed, the client connection will be closed''
        else ''ERROR: The '' @ ''MSG''
               @ '' command is not a valid command, the client connection will be closed'')"
    by (simp add: ALLOWED_SERVER_COMMANDS_def)
  show ?thesis
    using capacity_checked_after_verb [OF h1 h2 h3 h4 h5, of 7 quiet_net] by simp
qed

text \<open>
  C6 as stated fails: with the count above the maximum, the unknown verb FOO is answered
  with the unknown-command error, not with the capacity error.
\<close>

theorem capacity_before_verb_counterexample:
  "client_count (lobby_server\<lparr>client_count := 100\<rparr>) + 1 > max_clients (lobby_server\<lparr>client_count := 100\<rparr>)
   \<and> written (snd (client_callback ascii_runtime (stream_of ''FOO x'') 7
                     (lobby_server\<lparr>client_count := 100\<rparr>) quiet_net))
       = [(7, ''ERROR: The FOO command is not a valid command, the client connection will be closed'')]"
  by code_simp

section \<open>Registration\<close>

lemma next_client_id_free:
  "map_of clients (client_name @ str_nat (next_client_id client_name clients c)) = None"
proof (induction client_name clients c rule: next_client_id.induct)
  case (1 client_name clients c)
  then show ?case
    by (cases "map_of clients (client_name @ str_nat c) = None")
       (simp_all add: next_client_id.simps[of client_name clients c])
qed

lemma next_client_id_ge: "c \<le> next_client_id client_name clients c"
proof (induction client_name clients c rule: next_client_id.induct)
  case (1 client_name clients c)
  then show ?case
    by (cases "map_of clients (client_name @ str_nat c) = None")
       (auto simp: next_client_id.simps[of client_name clients c])
qed

lemma send_error_and_close_keys:
  "map fst (client_list (fst (send_error_and_close cw m cid s n))) = map fst (client_list s)"
  by (simp add: send_error_and_close_def Let_def client_list_put_status_keys
      split: option.splits prod.splits)

lemma map_of_None_keys: "map_of xs k = None \<longleftrightarrow> k \<notin> set (map fst xs)"
  by (simp add: map_of_eq_None_iff)

lemma register_client_sentinel_id:
  assumes "map_of (client_list s) chat_room = Some clients"
  shows "fst (register_client cw ''client'' chat_room s n) =
           ''client'' @ str_nat (next_client_id ''client'' clients (client_id_counter s + 1))"
  using assms by (simp add: register_client_def Let_def)

text \<open>
  C4 as the code has it. In a room that is not in the registry, registration returns
  ERROR after \<open>send_error_and_close\<close>, and the room stays absent. In a room that exists,
  the returned id is entered with the caller's writer and status NEW. The name client is
  replaced by client followed by a counter value above the old counter, an id that was not
  a key of the room, so that a second registration as client returns another id. Every
  other name is returned as it is.
\<close>

theorem register_client_assigns:
  "(map_of (client_list s) chat_room = None \<longrightarrow>
      fst (register_client cw client_name chat_room s n) = ''ERROR''
      \<and> snd (register_client cw client_name chat_room s n) =
          send_error_and_close cw
            (''Chat room '' @ chat_room @ '' does not exist. Please add it first.'') client_name s n
      \<and> map_of (client_list (fst (snd (register_client cw client_name chat_room s n)))) chat_room = None)
   \<and> (map_of (client_list s) chat_room = Some clients \<longrightarrow>
        session_of chat_room (fst (register_client cw client_name chat_room s n))
          (fst (snd (register_client cw client_name chat_room s n))) = Some (Session cw NEW)
        \<and> (client_name = ''client'' \<longrightarrow>
             (\<exists>k > client_id_counter s.
                  fst (register_client cw client_name chat_room s n) = ''client'' @ str_nat k)
             \<and> map_of clients (fst (register_client cw client_name chat_room s n)) = None
             \<and> fst (register_client cw2 ''client'' chat_room
                       (fst (snd (register_client cw client_name chat_room s n))) n2)
                 \<noteq> fst (register_client cw client_name chat_room s n))
        \<and> (client_name \<noteq> ''client'' \<longrightarrow>
             fst (register_client cw client_name chat_room s n) = client_name))"
proof -
  have nf: "map_of (client_list s) chat_room = None \<Longrightarrow>
      map_of (client_list (fst (send_error_and_close cw
            (''Chat room '' @ chat_room @ '' does not exist. Please add it first.'') client_name s n)))
        chat_room = None"
    by (simp add: map_of_None_keys send_error_and_close_keys del: set_map)
  have sess: "map_of (client_list s) chat_room = Some clients \<Longrightarrow>
        session_of chat_room (fst (register_client cw client_name chat_room s n))
          (fst (snd (register_client cw client_name chat_room s n))) = Some (Session cw NEW)"
    by (simp add: register_client_def Let_def session_of_put_entry)
  have fresh: "map_of (client_list s) chat_room = Some clients \<Longrightarrow> client_name = ''client'' \<Longrightarrow>
      (\<exists>k > client_id_counter s.
                  fst (register_client cw client_name chat_room s n) = ''client'' @ str_nat k)
      \<and> map_of clients (fst (register_client cw client_name chat_room s n)) = None"
  proof -
    assume a: "map_of (client_list s) chat_room = Some clients" and b: "client_name = ''client''"
    let ?k = "next_client_id ''client'' clients (client_id_counter s + 1)"
    have id: "fst (register_client cw client_name chat_room s n) = ''client'' @ str_nat ?k"
      using a b by (simp add: register_client_def Let_def)
    have gt: "client_id_counter s < ?k"
      using next_client_id_ge[of "client_id_counter s + 1" "''client''" clients] by simp
    have free: "map_of clients (''client'' @ str_nat ?k) = None"
      by (rule next_client_id_free)
    show ?thesis
      unfolding id using gt free by blast
  qed
  have twice: "map_of (client_list s) chat_room = Some clients \<Longrightarrow> client_name = ''client'' \<Longrightarrow>
      fst (register_client cw2 ''client'' chat_room
                       (fst (snd (register_client cw client_name chat_room s n))) n2)
                 \<noteq> fst (register_client cw client_name chat_room s n)"
  proof -
    assume a: "map_of (client_list s) chat_room = Some clients" and b: "client_name = ''client''"
    let ?id1 = "fst (register_client cw client_name chat_room s n)"
    let ?s1 = "fst (snd (register_client cw client_name chat_room s n))"
    have s1: "session_of chat_room ?id1 ?s1 = Some (Session cw NEW)" using a by (rule sess)
    then obtain clients1 where c1: "map_of (client_list ?s1) chat_room = Some clients1"
      and m1: "map_of clients1 ?id1 = Some (Session cw NEW)"
      by (auto simp: session_of_def split: option.splits)
    have "map_of clients1 (fst (register_client cw2 ''client'' chat_room ?s1 n2)) = None"
      unfolding register_client_sentinel_id [OF c1] by (rule next_client_id_free)
    with m1 show ?thesis by auto
  qed
  show ?thesis
    using nf sess fresh twice by (auto simp: register_client_def)
qed

theorem register_client_assigns_witness:
  "map_of (client_list lobby_server) ''lobby''
      = Some [(''alice'', Session 1 PAUSED), (''bob'', Session 2 ACTIVE)]
   \<and> fst (register_client 9 ''client'' ''lobby'' lobby_server quiet_net) = ''client2''
   \<and> session_of ''lobby'' ''client2''
        (fst (snd (register_client 9 ''client'' ''lobby'' lobby_server quiet_net)))
      = Some (Session 9 NEW)
   \<and> map_of (client_list lobby_server) ''nowhere'' = None
   \<and> fst (register_client 9 ''client'' ''nowhere'' lobby_server quiet_net) = ''ERROR''"
proof -
  have h: "map_of (client_list lobby_server) ''lobby''
             = Some [(''alice'', Session 1 PAUSED), (''bob'', Session 2 ACTIVE)]"
    by (simp add: lobby_server_def)
  have h2: "map_of (client_list lobby_server) ''nowhere'' = None"
    by (simp add: lobby_server_def)
  have e: "fst (register_client 9 ''client'' ''lobby'' lobby_server quiet_net) = ''client2''"
    by code_simp
  show ?thesis
    using e h h2
      register_client_assigns [where s = lobby_server and chat_room = "''nowhere''"
        and cw = 9 and client_name = "''client''" and n = quiet_net]
      register_client_assigns [where s = lobby_server and chat_room = "''lobby''"
        and cw = 9 and client_name = "''client''" and n = quiet_net
        and clients = "[(''alice'', Session 1 PAUSED), (''bob'', Session 2 ACTIVE)]"]
    by simp
qed

text \<open>
  C4 as stated fails: the name bob already names a session of the room lobby, and
  registration returns bob and replaces that session.
\<close>

theorem register_collision_counterexample:
  "session_of ''lobby'' ''bob'' lobby_server = Some (Session 2 ACTIVE)
   \<and> register_client 9 ''bob'' ''lobby'' lobby_server quiet_net =
       (''bob'',
        lobby_server\<lparr>client_list :=
          [(''lobby'', [(''alice'', Session 1 PAUSED), (''bob'', Session 9 NEW)]),
           (''hi'', [(''carol'', Session 3 ACTIVE)])]\<rparr>,
        quiet_net)"
  by (simp add: register_client_def lobby_server_def quiet_net_def put_entry_def session_of_def)

section \<open>Closing a client\<close>

text \<open>
  C5 on the code. \<open>close_client\<close> looks the client id up among the room names. Alice is a
  session of the room lobby and no room is named alice, so closing Alice returns at the
  first test: the registry and the connections are as before, with Alice still PAUSED in
  lobby, no farewell written and no connection closed. The same happens over the wire:
  after a NEW frame and a QUIT frame of the same client on a fresh server, the client is
  still the NEW session of its room, the only frame written is the announcement of the
  room, and no connection has been closed. On no input does \<open>close_client\<close> write a frame
  or close a connection.
\<close>

theorem close_client_closes_nothing:
  "snd (close_client client_id s n) = n
   \<and> close_client ''alice'' lobby_server quiet_net = (lobby_server, quiet_net)
   \<and> session_of ''lobby'' ''alice'' (fst (close_client ''alice'' lobby_server quiet_net))
        = Some (Session 1 PAUSED)
   \<and> run ascii_runtime
         [Connect (stream_of ''NEW lobby:alice '') 1, Connect (stream_of ''QUIT lobby:alice '') 2]
         (fresh_server, quiet_net)
       = (fresh_server\<lparr>client_list :=
              [(''b'' @ [CHR 0x27] @ ''lobby'', [(''alice '' @ [CHR 0x27], Session 1 NEW)])],
            client_count := 2\<rparr>,
          quiet_net\<lparr>written :=
              [(1, ''MSG Chatroom b'' @ [CHR 0x27] @ ''lobby was successfully created by alice ''
                     @ [CHR 0x27] @ ''.'')]\<rparr>)"
proof -
  have a: "snd (close_client client_id s n) = n"
    by (simp add: close_client_def Let_def split: option.splits)
  have b: "close_client ''alice'' lobby_server quiet_net = (lobby_server, quiet_net)"
    by (simp add: close_client_def has_room_def lobby_server_def)
  have c: "session_of ''lobby'' ''alice'' lobby_server = Some (Session 1 PAUSED)"
    by (simp add: session_of_def lobby_server_def)
  have d: "run ascii_runtime
         [Connect (stream_of ''NEW lobby:alice '') 1, Connect (stream_of ''QUIT lobby:alice '') 2]
         (fresh_server, quiet_net)
       = (fresh_server\<lparr>client_list :=
              [(''b'' @ [CHR 0x27] @ ''lobby'', [(''alice '' @ [CHR 0x27], Session 1 NEW)])],
            client_count := 2\<rparr>,
          quiet_net\<lparr>written :=
              [(1, ''MSG Chatroom b'' @ [CHR 0x27] @ ''lobby was successfully created by alice ''
                     @ [CHR 0x27] @ ''.'')]\<rparr>)"
    by code_simp
  show ?thesis
    using a b c d by simp
qed

section \<open>The rooms of the registry\<close>

lemma map_entry_keys: "map fst (AList.map_entry k f xs) = map fst xs"
  by (induction xs) auto

lemma update_keys_set: "set (map fst (AList.update k v xs)) = insert k (set (map fst xs))"
  by (induction xs) auto

lemma has_room_put_status [simp]: "has_room r (put_status k v s) = has_room r s"
  by (simp add: has_room_def put_status_def map_entry_keys)

lemma has_room_put_entry [simp]: "has_room r (put_entry k c e s) = has_room r s"
  by (simp add: has_room_def put_entry_def map_entry_keys)

lemma has_room_client_count [simp]: "has_room r (s\<lparr>client_count := k\<rparr>) = has_room r s"
  by (simp add: has_room_def)

lemma has_room_client_id_counter [simp]: "has_room r (s\<lparr>client_id_counter := k\<rparr>) = has_room r s"
  by (simp add: has_room_def)

lemma has_room_send_error_and_close [simp]:
  "has_room r (fst (send_error_and_close cw m cid s n)) = has_room r s"
  by (simp add: send_error_and_close_def Let_def split: option.splits prod.splits)

lemma has_room_reject [simp]: "has_room r (fst (reject cw m cid s n)) = has_room r s"
proof -
  have "fst (reject cw m cid s n) =
          (fst (send_error_and_close cw m cid s n))
            \<lparr>client_count := client_count (fst (send_error_and_close cw m cid s n)) - 1\<rparr>"
    by (simp add: reject_def split: prod.splits)
  then show ?thesis by simp
qed

lemma has_room_read_failed [simp]: "has_room r (fst (read_failed rt e cw s n)) = has_room r s"
proof -
  have "fst (case send_error_and_close cw m ''Unknown'' s n of
               (s1, n1) \<Rightarrow> (s1\<lparr>client_count := client_count s1 - 1\<rparr>, n1)) =
          (fst (send_error_and_close cw m ''Unknown'' s n))
            \<lparr>client_count := client_count (fst (send_error_and_close cw m ''Unknown'' s n)) - 1\<rparr>" for m
    by (simp split: prod.splits)
  then show ?thesis by (cases e) (simp_all add: read_failed_def)
qed

lemma has_room_register_client [simp]:
  "has_room r (fst (snd (register_client cw name room s n))) = has_room r s"
  by (simp add: register_client_def Let_def split: option.splits)

lemma pause_rooms_keys: "map fst (snd (snd (pause_rooms c rooms))) = map fst rooms"
  by (induction rooms) (auto split: option.splits entry.splits prod.splits)

lemma has_room_pause_client [simp]: "has_room r (snd (pause_client c s)) = has_room r s"
proof -
  have "client_list (snd (pause_client c s)) = snd (snd (pause_rooms c (client_list s)))"
    by (simp add: pause_client_def split: prod.splits option.splits)
  then show ?thesis by (simp add: has_room_def pause_rooms_keys)
qed

lemma has_room_join_chatroom [simp]:
  "has_room r (fst (snd (join_chatroom room c w s n))) = has_room r s"
  by (simp add: join_chatroom_def Let_def)

lemma has_room_close_client [simp]: "has_room r (fst (close_client c s n)) = has_room r s"
  by (simp add: close_client_def Let_def split: option.splits)

lemma has_room_add_chatroom:
  "has_room r s \<Longrightarrow> has_room r (fst (snd (add_chatroom room c w s n)))"
  by (auto simp: add_chatroom_def Let_def has_room_def update_keys_set simp del: set_map
      split: sum.splits)

lemma has_room_advance_status [simp]: "has_room r (advance_status room c w st s) = has_room r s"
  by (cases st) (simp_all add: advance_status_def)

lemma has_room_process_command:
  assumes "has_room r s"
  shows "has_room r (fst (process_command rt message_name chat_room client_id message_data cw s n))"
proof -
  have pause: "has_room r (fst (case pause_client client_id s of
           (Inl e, s1) \<Rightarrow>
             send_error_and_close cw (''Pause failed: '' @ exc_str rt e) client_id s1 n
         | (Inr msg, s1) \<Rightarrow> (s1, n)))"
    using assms has_room_pause_client [of r client_id s]
    by (cases "pause_client client_id s") (auto split: sum.splits)
  have new: "has_room r (fst (case add_chatroom chat_room client_id cw s n of
           (Inl e, s1, n1) \<Rightarrow>
             send_error_and_close cw (''Room creation failed: '' @ exc_str rt e) client_id s1 n1
         | (Inr status, s1, n1) \<Rightarrow> (s1, n1)))"
    using has_room_add_chatroom [OF assms, of chat_room client_id cw n]
    by (cases "add_chatroom chat_room client_id cw s n") (auto split: sum.splits)
  show ?thesis
    unfolding process_command_def
    using assms pause new
    by (auto simp: Let_def split: option.splits entry.splits sum.splits)
qed

lemma has_room_client_callback:
  assumes "has_room r s"
  shows "has_room r (fst (client_callback rt rd cw s n))"
  using assms
  by (auto simp: client_callback_def Let_def has_room_process_command
      split: sum.splits prod.splits)

lemma has_room_step:
  assumes "has_room r (fst sn)"
  shows "has_room r (fst (step rt e sn))"
  using assms by (cases sn; cases e) (simp_all add: has_room_client_callback)

lemma has_room_run:
  assumes "has_room r (fst sn)"
  shows "has_room r (fst (run rt evs sn))"
  using assms by (induction evs arbitrary: sn) (simp_all add: has_room_step)

text \<open>The only function that adds a room refuses the name main.\<close>

lemma main_add_chatroom:
  "has_room ''main'' (fst (snd (add_chatroom room c w s n))) = has_room ''main'' s"
  by (auto simp: add_chatroom_def Let_def has_room_def update_keys_set simp del: set_map
      split: sum.splits)

lemma main_process_command:
  assumes "\<not> has_room ''main'' s"
  shows "\<not> has_room ''main''
           (fst (process_command rt message_name chat_room client_id message_data cw s n))"
proof -
  have pause: "\<not> has_room ''main'' (fst (case pause_client client_id s of
           (Inl e, s1) \<Rightarrow>
             send_error_and_close cw (''Pause failed: '' @ exc_str rt e) client_id s1 n
         | (Inr msg, s1) \<Rightarrow> (s1, n)))"
    using assms has_room_pause_client [of "''main''" client_id s]
    by (cases "pause_client client_id s") (auto split: sum.splits)
  have new: "\<not> has_room ''main'' (fst (case add_chatroom chat_room client_id cw s n of
           (Inl e, s1, n1) \<Rightarrow>
             send_error_and_close cw (''Room creation failed: '' @ exc_str rt e) client_id s1 n1
         | (Inr status, s1, n1) \<Rightarrow> (s1, n1)))"
    using assms main_add_chatroom [of chat_room client_id cw s n]
    by (cases "add_chatroom chat_room client_id cw s n") (auto split: sum.splits)
  show ?thesis
    unfolding process_command_def
    using assms pause new
    by (auto simp: Let_def split: option.splits entry.splits sum.splits)
qed

lemma main_client_callback:
  assumes "\<not> has_room ''main'' s"
  shows "\<not> has_room ''main'' (fst (client_callback rt rd cw s n))"
  using assms
  by (auto simp: client_callback_def Let_def main_process_command
      split: sum.splits prod.splits)

lemma main_step:
  assumes "\<not> has_room ''main'' (fst sn)"
  shows "\<not> has_room ''main'' (fst (step rt e sn))"
  using assms by (cases sn; cases e) (simp_all add: main_client_callback)

lemma main_run:
  assumes "\<not> has_room ''main'' (fst sn)"
  shows "\<not> has_room ''main'' (fst (run rt evs sn))"
  using assms by (induction evs arbitrary: sn) (simp_all add: main_step)

text \<open>
  C2 as the code has it. The constructor leaves the registry empty, and no sequence of
  events creates the room main: it is in no state that a freshly constructed server
  reaches. \<open>add_chatroom\<close> for the name main leaves the server as it is and does not
  return the announcement of a created room. No event removes a room: a room of the
  registry is still there after any sequence of events.
\<close>

theorem rooms_kept_main_absent:
  "(init h p mc mml ssl cert = Inr s0 \<longrightarrow>
      client_list s0 = [] \<and> \<not> has_room ''main'' (fst (run rt evs (s0, n0))))
   \<and> (\<not> has_room ''main'' s \<longrightarrow> \<not> has_room ''main'' (fst (run rt evs (s, n))))
   \<and> (has_room r s \<longrightarrow> has_room r (fst (run rt evs (s, n))))
   \<and> fst (snd (add_chatroom ''main'' c w s n)) = s
   \<and> fst (add_chatroom ''main'' c w s n)
        \<noteq> Inr (''MSG Chatroom main was successfully created by '' @ c @ ''.'')"
proof -
  have e: "init h p mc mml ssl cert = Inr s0 \<longrightarrow> client_list s0 = []"
    by (auto simp: init_def split: if_splits)
  have m: "\<not> has_room ''main'' s \<longrightarrow> \<not> has_room ''main'' (fst (run rt evs (s, n)))" for s n
    using main_run [of "(s, n)" rt evs] by simp
  have a: "init h p mc mml ssl cert = Inr s0 \<longrightarrow> \<not> has_room ''main'' (fst (run rt evs (s0, n0)))"
    using e m [of s0 n0] by (auto simp: has_room_def)
  have b: "has_room r s \<longrightarrow> has_room r (fst (run rt evs (s, n)))"
    using has_room_run [of r "(s, n)" rt evs] by simp
  have c: "fst (snd (add_chatroom ''main'' c w s n)) = s"
    by (simp add: add_chatroom_def Let_def split: sum.splits)
  have d: "fst (add_chatroom ''main'' c w s n)
        \<noteq> Inr (''MSG Chatroom main was successfully created by '' @ c @ ''.'')"
    by (auto simp: add_chatroom_def Let_def split: sum.splits)
  show ?thesis using e a m [of s n] b c d by blast
qed

theorem rooms_kept_main_absent_witness:
  "init ''127.0.0.1'' ''10010'' 100 255 None None = Inr fresh_server
   \<and> client_list fresh_server = []
   \<and> \<not> has_room ''main''
        (fst (run ascii_runtime
               [Connect (stream_of ''NEW nocolon '') 5, Connect (stream_of ''NEW main:dave '') 6]
               (fresh_server, quiet_net)))
   \<and> has_room (''b'' @ [CHR 0x27] @ ''lobby'')
        (fst (run ascii_runtime [Connect (stream_of ''NEW lobby:alice '') 1] (fresh_server, quiet_net)))
   \<and> has_room (''b'' @ [CHR 0x27] @ ''lobby'')
        (fst (run ascii_runtime
               [Connect (stream_of ''QUIT lobby:alice '') 2, CloseClient (''b'' @ [CHR 0x27] @ ''lobby''),
                PauseClient (''alice '' @ [CHR 0x27])]
               (run ascii_runtime [Connect (stream_of ''NEW lobby:alice '') 1]
                  (fresh_server, quiet_net))))"
proof -
  let ?lobby = "''b'' @ [CHR 0x27] @ ''lobby''"
  let ?sn = "run ascii_runtime [Connect (stream_of ''NEW lobby:alice '') 1] (fresh_server, quiet_net)"
  let ?evs = "[Connect (stream_of ''QUIT lobby:alice '') 2, CloseClient ?lobby,
               PauseClient (''alice '' @ [CHR 0x27])]"
  have i: "init ''127.0.0.1'' ''10010'' 100 255 None None = Inr fresh_server"
    by (simp add: init_def fresh_server_def)
  have h: "has_room ?lobby (fst ?sn)"
    by code_simp
  have k: "has_room ?lobby (fst (run ascii_runtime ?evs ?sn))"
    using h rooms_kept_main_absent [where r = ?lobby and s = "fst ?sn" and n = "snd ?sn"
        and rt = ascii_runtime and evs = ?evs]
    by simp
  show ?thesis
    using i h k
      rooms_kept_main_absent [where h = "''127.0.0.1''" and p = "''10010''" and mc = 100
        and mml = 255 and ssl = None and cert = None and ?s0.0 = fresh_server
        and rt = ascii_runtime and ?n0.0 = quiet_net
        and evs = "[Connect (stream_of ''NEW nocolon '') 5, Connect (stream_of ''NEW main:dave '') 6]"]
    by simp
qed

text \<open>
  C2 as stated fails: the registry of a freshly constructed server does not contain the
  room main.
\<close>

theorem fresh_server_has_no_main_counterexample:
  "init ''127.0.0.1'' ''10010'' 100 255 None None = Inr fresh_server
   \<and> \<not> has_room ''main'' fresh_server"
  by (simp add: init_def fresh_server_def has_room_def)

end
